theory Spec2Isabelle
  imports Complex_Main "HOL-Library.Word"
begin

unbundle bit_operations_syntax

section \<open>The tile reader of \<^verbatim>\<open>src/core_terrain/read_tile.c\<close>\<close>

text \<open>
  \<^verbatim>\<open>c_get_tile(file, dx, dy, x_offset, y_offset, word_size, tile)\<close> allocates a byte
  buffer, opens the file, reads \<open>word_size * narray\<close> bytes with one \<^verbatim>\<open>read\<close>, closes the
  file, decodes the bytes into the local array \<^verbatim>\<open>tile_1d\<close>, copies \<^verbatim>\<open>tile_1d\<close> into the
  caller's \<^verbatim>\<open>tile\<close> and frees the buffer.

  The embedding passes the state of the call explicitly:
  \<^item> the three memories the function touches (\<^verbatim>\<open>buf\<close>, \<^verbatim>\<open>tile_1d\<close>, \<^verbatim>\<open>tile\<close>) are stores from
    an index (the offset from the pointer, in elements) to a value, so that a read or a
    write past the end of an array is a read or a write of the store at that index
    and not an unspecified list access;
  \<^item> the calls to the operating system and to the C library are recorded, in order, in
    a trace of events (\<open>Read count n\<close> is a \<^verbatim>\<open>read\<close> of \<open>count\<close> bytes that returned \<open>n\<close>);
  \<^item> what the operating system answers is an input of the model (\<open>os\<close>): which paths
    open and what the file holds, whether \<^verbatim>\<open>read\<close> and \<^verbatim>\<open>close\<close> return \<open>-1\<close>;
  \<^item> \<^verbatim>\<open>malloc\<close> and the variable-length array \<^verbatim>\<open>tile_1d\<close> do not initialise their memory:
    what they hold before the first write is an input of the model as well
    (\<open>heap0\<close>, \<open>stack0\<close>).

  The \<^verbatim>\<open>int\<close> parameters and loop counters are modelled by \<open>int\<close>, and the byte count
  \<open>word_size * narray\<close> is the exact product. The source computes the count in \<^verbatim>\<open>int\<close> and
  converts it to \<^verbatim>\<open>size_t\<close> for \<^verbatim>\<open>read\<close> (line 69), and computes it in \<^verbatim>\<open>size_t\<close> for \<^verbatim>\<open>malloc\<close>
  (line 60); the two agree with the exact product on the requests of \<open>request_in_range\<close>
  below (positive sizes, offsets that are not negative, a count that fits a C \<^verbatim>\<open>int\<close>), and
  the statements about the bytes transferred carry that hypothesis. The model describes the
  calls in which \<^verbatim>\<open>malloc\<close> returns a block. The sample value, which the code
  builds with shifts and a bitwise or, is a 32-bit word. A \<^verbatim>\<open>float\<close> is modelled by a
  real number; the only \<^verbatim>\<open>float\<close> the code computes is \<^verbatim>\<open>(float) value\<close>, and the value is
  small enough for the conversion to be exact (see \<open>is_binary32\<close> below).
\<close>

subsection \<open>Data\<close>

type_synonym byte = "8 word"

datatype event =
    Malloc int
  | Open string
  | Read int int
  | Close
  | Free
  | Perror string
  | Printf string

record os =
  files :: "string \<Rightarrow> byte list option"
  read_fails :: bool
  close_fails :: bool

record state =
  buf :: "int \<Rightarrow> byte"
  tile_1d :: "int \<Rightarrow> real"
  tile :: "int \<Rightarrow> real"
  stores :: "(int \<times> real) list"
  trace :: "event list"

definition log :: "event \<Rightarrow> state \<Rightarrow> state" where
  "log e s = s\<lparr>trace := trace s @ [e]\<rparr>"

text \<open>
  \<^verbatim>\<open>read(fd, buf, count)\<close> on a freshly opened file holding \<open>contents\<close> either fails and
  returns \<open>-1\<close>, or transfers the first \<open>count\<close> bytes of the file, or the whole file when
  it is shorter, to the start of the buffer, leaves the rest of the buffer as it was, and
  returns the number of bytes transferred.
\<close>

definition read_into :: "byte list \<Rightarrow> (int \<Rightarrow> byte) \<Rightarrow> int \<Rightarrow> byte" where
  "read_into data b = (\<lambda>k. if 0 \<le> k \<and> k < int (length data) then data ! nat k else b k)"

definition os_read :: "os \<Rightarrow> byte list \<Rightarrow> int \<Rightarrow> state \<Rightarrow> int \<times> state" where
  "os_read w contents count s =
     (if read_fails w then (- 1, log (Read count (- 1)) s)
      else (let data = take (nat count) contents;
                n = int (length data)
            in (n, log (Read count n) (s\<lparr>buf := read_into data (buf s)\<rparr>))))"

subsection \<open>The decoding loop (lines 80 to 98)\<close>

text \<open>
  \<^verbatim>\<open>value = (int) (buf[word_size * i] << 8 | buf[word_size * i + 1]);\<close>
  \<^verbatim>\<open>if (buf[word_size * i] >> 7 == 1) value -= 1 << (8 * word_size);\<close>
  The two bytes are promoted to \<^verbatim>\<open>int\<close> before the shifts.
\<close>

definition sample_value :: "int \<Rightarrow> byte \<Rightarrow> byte \<Rightarrow> 32 word" where
  "sample_value word_size b0 b1 =
     (let v = push_bit 8 (ucast b0) OR ucast b1
      in if drop_bit 7 (ucast b0 :: 32 word) = 1
         then v - push_bit (nat (8 * word_size)) 1
         else v)"

text \<open>The body of the loop: the \<^verbatim>\<open>switch\<close> has the single case 2 and no default.\<close>

definition decode_sample :: "int \<Rightarrow> int \<Rightarrow> state \<Rightarrow> state" where
  "decode_sample word_size i s =
     (if word_size = 2
      then s\<lparr>tile_1d := (tile_1d s)
                (i := real_of_int (sint (sample_value word_size
                                           (buf s (word_size * i))
                                           (buf s (word_size * i + 1)))))\<rparr>
      else s)"

function decode_loop :: "int \<Rightarrow> int \<Rightarrow> int \<Rightarrow> state \<Rightarrow> state" where
  "decode_loop word_size narray i s =
     (if i < narray
      then decode_loop word_size narray (i + 1) (decode_sample word_size i s)
      else s)"
  by pat_completeness auto
termination
  by (relation "measure (\<lambda>(word_size, narray, i, s). nat (narray - i))") auto

declare decode_loop.simps [simp del]

subsection \<open>The remapping loops (lines 100 to 105)\<close>

text \<open>\<^verbatim>\<open>tile[p] = v\<close>; the write is also appended to the list of the writes made.\<close>

definition tile_store :: "int \<Rightarrow> real \<Rightarrow> state \<Rightarrow> state" where
  "tile_store p v s = s\<lparr>tile := (tile s)(p := v), stores := stores s @ [(p, v)]\<rparr>"

function remap_inner :: "int \<Rightarrow> int \<Rightarrow> int \<Rightarrow> int \<Rightarrow> int \<Rightarrow> int \<Rightarrow> state \<Rightarrow> state" where
  "remap_inner dx dy x_offset y_offset j i s =
     (if i < dy + y_offset
      then remap_inner dx dy x_offset y_offset j (i + 1)
             (tile_store (i * dx + j) (tile_1d s ((dx + x_offset) * j + i)) s)
      else s)"
  by pat_completeness auto
termination
  by (relation "measure (\<lambda>(dx, dy, x_offset, y_offset, j, i, s). nat (dy + y_offset - i))") auto

declare remap_inner.simps [simp del]

function remap_outer :: "int \<Rightarrow> int \<Rightarrow> int \<Rightarrow> int \<Rightarrow> int \<Rightarrow> state \<Rightarrow> state" where
  "remap_outer dx dy x_offset y_offset j s =
     (if j < dx + x_offset
      then remap_outer dx dy x_offset y_offset (j + 1)
             (remap_inner dx dy x_offset y_offset j 0 s)
      else s)"
  by pat_completeness auto
termination
  by (relation "measure (\<lambda>(dx, dy, x_offset, y_offset, j, s). nat (dx + x_offset - j))") auto

declare remap_outer.simps [simp del]

subsection \<open>The function\<close>

text \<open>
  The result is the returned status and the state the call leaves behind. Each
  \<^verbatim>\<open>return\<close> of the source is one branch. \<^verbatim>\<open>numBytes\<close> is a \<^verbatim>\<open>size_t\<close>; the test
  \<^verbatim>\<open>numBytes == -1\<close> converts \<open>-1\<close> to \<^verbatim>\<open>size_t\<close> as well, so it holds exactly when \<^verbatim>\<open>read\<close>
  returned \<open>-1\<close>.
\<close>

definition c_get_tile ::
  "os \<Rightarrow> (int \<Rightarrow> byte) \<Rightarrow> (int \<Rightarrow> real) \<Rightarrow>
   string \<Rightarrow> int \<Rightarrow> int \<Rightarrow> int \<Rightarrow> int \<Rightarrow> int \<Rightarrow> (int \<Rightarrow> real) \<Rightarrow> int \<times> state" where
  "c_get_tile w heap0 stack0 file dx dy x_offset y_offset word_size tile0 =
     (let narray = (dx + x_offset) * (dy + y_offset);
          s = \<lparr>buf = heap0, tile_1d = stack0, tile = tile0, stores = [], trace = []\<rparr>;
          s = log (Malloc (word_size * narray)) s;
          s = log (Open file) s
      in case files w file of
           None \<Rightarrow>
             (- 1, log (Printf (''C filename was: '' @ file @ [CHR 0x0A]))
                     (log (Perror ''OPEN ERROR: '') s))
         | Some contents \<Rightarrow>
             (let (numBytes, s) = os_read w contents (word_size * narray) s
              in if numBytes = - 1
                 then (- 1, log (Perror ''READ ERROR: '') s)
                 else
                   (let s = log Close s
                    in if close_fails w
                       then (- 1, log (Perror ''CLOSE ERROR: '') s)
                       else
                         (let s = decode_loop word_size narray 0 s;
                              s = remap_outer dx dy x_offset y_offset 0 s;
                              s = log Free s
                          in (1, s)))))"

subsection \<open>Requests on which the machine arithmetic is exact\<close>

text \<open>
  The conversion of an integer to \<^verbatim>\<open>size_t\<close> on a 64-bit machine.
\<close>

definition size_t_of :: "int \<Rightarrow> int" where
  "size_t_of x = x mod 2 ^ 64"

text \<open>
  The requests of the data model (\<open>dx\<close>, \<open>dy\<close> and \<open>word_size\<close> positive, offsets not
  negative) whose byte count is at most \<^verbatim>\<open>INT_MAX\<close>. On them no \<^verbatim>\<open>int\<close> operation of the
  function overflows, the variable-length array has a positive size, and the count that
  \<^verbatim>\<open>malloc\<close> and \<^verbatim>\<open>read\<close> receive is the exact product.
\<close>

definition request_in_range :: "int \<Rightarrow> int \<Rightarrow> int \<Rightarrow> int \<Rightarrow> int \<Rightarrow> bool" where
  "request_in_range dx dy x_offset y_offset word_size =
     (0 < dx \<and> 0 < dy \<and> 0 \<le> x_offset \<and> 0 \<le> y_offset \<and> 0 < word_size
      \<and> word_size * ((dx + x_offset) * (dy + y_offset)) \<le> 2147483647)"

subsection \<open>What the loops compute\<close>

text \<open>
  The sample array after the decoding loop has run from index \<open>i0\<close> over a buffer \<open>b\<close>:
  the indices the loop visits hold the decoded pair of bytes when \<open>word_size\<close> is 2, every
  other index holds what the array \<open>t\<close> held before.
\<close>

definition decoded_samples ::
  "int \<Rightarrow> int \<Rightarrow> int \<Rightarrow> (int \<Rightarrow> byte) \<Rightarrow> (int \<Rightarrow> real) \<Rightarrow> int \<Rightarrow> real" where
  "decoded_samples word_size narray i0 b t =
     (\<lambda>k. if word_size = 2 \<and> i0 \<le> k \<and> k < narray
          then real_of_int (sint (sample_value 2 (b (2 * k)) (b (2 * k + 1))))
          else t k)"

text \<open>
  The writes of the remapping loops, in the order the loops make them: for the column
  \<open>j\<close> and each row \<open>i\<close>, the sample at \<open>(dx + x_offset) * j + i\<close> goes to the output
  position \<open>i * dx + j\<close>.
\<close>

definition column_writes ::
  "int \<Rightarrow> int \<Rightarrow> (int \<Rightarrow> real) \<Rightarrow> int \<Rightarrow> int list \<Rightarrow> (int \<times> real) list" where
  "column_writes dx x_offset t j rows =
     map (\<lambda>i. (i * dx + j, t ((dx + x_offset) * j + i))) rows"

definition remap_writes ::
  "int \<Rightarrow> int \<Rightarrow> int \<Rightarrow> int \<Rightarrow> (int \<Rightarrow> real) \<Rightarrow> int list \<Rightarrow> (int \<times> real) list" where
  "remap_writes dx dy x_offset y_offset t cols =
     concat (map (\<lambda>j. column_writes dx x_offset t j [0..dy + y_offset - 1]) cols)"

definition apply_writes :: "(int \<times> real) list \<Rightarrow> (int \<Rightarrow> real) \<Rightarrow> int \<Rightarrow> real" where
  "apply_writes ws m = fold (\<lambda>(p, v) m. m(p := v)) ws m"

text \<open>
  The finite values of the IEEE 754 single-precision format: a significand of at most
  24 bits, scaled by a power of two between \<open>2 powi -149\<close> and \<open>2 powi 104\<close>.
\<close>

definition is_binary32 :: "real \<Rightarrow> bool" where
  "is_binary32 x =
     (\<exists>m e. \<bar>m\<bar> < 2 ^ 24 \<and> - 149 \<le> e \<and> e \<le> 104 \<and> x = real_of_int m * 2 powi e)"

subsection \<open>Example inputs\<close>

text \<open>
  A file of four big-endian 16-bit samples, 1, -1, 100 and -100, at the path
  \<^verbatim>\<open>tile.bin\<close>; no other path opens.
\<close>

definition tile_bytes :: "byte list" where
  "tile_bytes = [0x00, 0x01, 0xFF, 0xFF, 0x00, 0x64, 0xFF, 0x9C]"

definition tile_files :: "string \<Rightarrow> byte list option" where
  "tile_files p = (if p = ''tile.bin'' then Some tile_bytes else None)"

definition os_ok :: os where
  "os_ok = \<lparr>files = tile_files, read_fails = False, close_fails = False\<rparr>"

definition os_read_error :: os where
  "os_read_error = \<lparr>files = tile_files, read_fails = True, close_fails = False\<rparr>"

definition os_close_error :: os where
  "os_close_error = \<lparr>files = tile_files, read_fails = False, close_fails = True\<rparr>"

text \<open>Contents of memory that was never written: all zero, or all seven.\<close>

definition zero_bytes :: "int \<Rightarrow> byte" where
  "zero_bytes k = 0"

definition zero_floats :: "int \<Rightarrow> real" where
  "zero_floats k = 0"

definition seven_floats :: "int \<Rightarrow> real" where
  "seven_floats k = 7"

section \<open>Auxiliary facts\<close>

subsection \<open>Two bytes as a signed 16-bit number\<close>

lemma uint_byte_bounds: "0 \<le> uint b \<and> uint b < 256" for b :: byte
  using uint_lt2p [of b] by simp

lemma or_bytes:
  "(push_bit 8 (ucast b0) OR ucast b1 :: 32 word) = word_of_int (256 * uint b0 + uint b1)"
  for b0 b1 :: byte
proof -
  have "push_bit 8 (ucast b0 :: 32 word) + ucast b1 = push_bit 8 (ucast b0) OR ucast b1"
    by (rule disjunctive_add) (auto simp add: bit_simps dest: bit_imp_le_length)
  moreover have "push_bit 8 (ucast b0 :: 32 word) + ucast b1
                   = word_of_int (256 * uint b0 + uint b1)"
    by (simp add: push_bit_eq_mult mult.commute)
  ultimately show ?thesis by simp
qed

lemma top_bit: "drop_bit 7 (ucast b0 :: 32 word) = 1 \<longleftrightarrow> 128 \<le> uint b0"
  for b0 :: byte
proof -
  have b: "0 \<le> uint b0" "uint b0 < 256"
    using uint_byte_bounds [of b0] by simp_all
  have "uint (drop_bit 7 (ucast b0 :: 32 word)) = uint b0 mod 4294967296 div 128"
    by (simp add: drop_bit_eq_div uint_div unsigned_ucast_eq take_bit_eq_mod)
  also have "uint b0 mod 4294967296 = uint b0"
    using b by (simp add: mod_pos_pos_trivial)
  finally have d: "uint (drop_bit 7 (ucast b0 :: 32 word)) = uint b0 div 128" .
  have "drop_bit 7 (ucast b0 :: 32 word) = 1
          \<longleftrightarrow> uint (drop_bit 7 (ucast b0 :: 32 word)) = uint (1 :: 32 word)"
    by (simp only: word_uint_eq_iff)
  also have "\<dots> \<longleftrightarrow> uint b0 div 128 = 1"
    by (simp add: d)
  also have "\<dots> \<longleftrightarrow> 128 \<le> uint b0"
    using b by presburger
  finally show ?thesis .
qed

lemma bit_7_byte: "bit b0 7 \<longleftrightarrow> 128 \<le> uint b0" for b0 :: byte
proof -
  have b: "0 \<le> uint b0" "uint b0 < 256"
    using uint_byte_bounds [of b0] by simp_all
  have "bit b0 7 \<longleftrightarrow> bit (uint b0) 7"
    by (simp add: bit_uint_iff)
  also have "\<dots> \<longleftrightarrow> odd (uint b0 div 128)"
    by (simp add: bit_iff_odd)
  also have "\<dots> \<longleftrightarrow> 128 \<le> uint b0"
    using b by presburger
  finally show ?thesis .
qed

lemma sint32:
  "- 2147483648 \<le> k \<Longrightarrow> k < 2147483648 \<Longrightarrow> sint (word_of_int k :: 32 word) = k"
  by (simp add: signed_of_int signed_take_bit_int_eq_self)

lemma sint16:
  assumes "0 \<le> k" "k < 65536"
  shows "sint (word_of_int k :: 16 word) = (if k < 32768 then k else k - 65536)"
proof (cases "k < 32768")
  case True
  with assms show ?thesis
    by (simp add: signed_of_int signed_take_bit_int_eq_self)
next
  case False
  have "(k + 32768) mod 65536 = ((k - 32768) + 65536) mod 65536"
    by (simp add: algebra_simps)
  also have "\<dots> = (k - 32768) mod 65536"
    by (simp only: mod_add_self2)
  also have "\<dots> = k - 32768"
    using assms False by (simp add: mod_pos_pos_trivial)
  finally show ?thesis
    using False by (simp add: signed_of_int signed_take_bit_eq_take_bit_shift take_bit_eq_mod)
qed

lemma sample_value_2_int:
  "sint (sample_value 2 b0 b1)
     = 256 * uint b0 + uint b1 - (if 128 \<le> uint b0 then 65536 else 0)"
proof -
  have b: "0 \<le> uint b0" "uint b0 < 256" "0 \<le> uint b1" "uint b1 < 256"
    using uint_byte_bounds [of b0] uint_byte_bounds [of b1] by simp_all
  show ?thesis
  proof (cases "128 \<le> uint b0")
    case True
    then have "sample_value 2 b0 b1 = word_of_int (256 * uint b0 + uint b1 - 65536)"
      by (simp add: sample_value_def Let_def top_bit or_bytes)
    moreover have "sint (word_of_int (256 * uint b0 + uint b1 - 65536) :: 32 word)
                     = 256 * uint b0 + uint b1 - 65536"
      using b by (intro sint32) linarith+
    ultimately show ?thesis using True by simp
  next
    case False
    then have "sample_value 2 b0 b1 = word_of_int (256 * uint b0 + uint b1)"
      by (simp add: sample_value_def Let_def top_bit or_bytes)
    moreover have "sint (word_of_int (256 * uint b0 + uint b1) :: 32 word)
                     = 256 * uint b0 + uint b1"
      using b by (intro sint32) linarith+
    ultimately show ?thesis using False by simp
  qed
qed

lemma word_cat_bytes: "(word_cat b0 b1 :: 16 word) = word_of_int (256 * uint b0 + uint b1)"
  for b0 b1 :: byte
  by (simp add: word_cat_eq push_bit_eq_mult mult.commute)

lemma sample_value_2_word_cat:
  "sint (sample_value 2 b0 b1) = sint (word_cat b0 b1 :: 16 word)"
proof -
  have b: "0 \<le> uint b0" "uint b0 < 256" "0 \<le> uint b1" "uint b1 < 256"
    using uint_byte_bounds [of b0] uint_byte_bounds [of b1] by simp_all
  have "sint (word_cat b0 b1 :: 16 word)
        = (if 256 * uint b0 + uint b1 < 32768 then 256 * uint b0 + uint b1
           else 256 * uint b0 + uint b1 - 65536)"
    unfolding word_cat_bytes using b by (intro sint16) linarith+
  also have "\<dots> = 256 * uint b0 + uint b1 - (if 128 \<le> uint b0 then 65536 else 0)"
  proof (cases "128 \<le> uint b0")
    case True
    with b have "\<not> 256 * uint b0 + uint b1 < 32768" by linarith
    with True show ?thesis by simp
  next
    case False
    with b have "256 * uint b0 + uint b1 < 32768" by linarith
    with False show ?thesis by simp
  qed
  finally show ?thesis by (simp add: sample_value_2_int)
qed

lemma sample_value_2_range:
  "- 32768 \<le> sint (sample_value 2 b0 b1) \<and> sint (sample_value 2 b0 b1) \<le> 32767"
proof -
  have r: "- 32768 \<le> 256 * x + y - (if 128 \<le> x then 65536 else 0)
           \<and> 256 * x + y - (if 128 \<le> x then 65536 else 0) \<le> 32767"
    if "0 \<le> x" "x < 256" "0 \<le> y" "y < 256" for x y :: int
    using that by auto
  show ?thesis
    unfolding sample_value_2_int by (rule r) (simp_all add: uint_byte_bounds)
qed

subsection \<open>The loops in closed form\<close>

lemma apply_writes_Nil [simp]: "apply_writes [] m = m"
  by (simp add: apply_writes_def)

lemma apply_writes_Cons [simp]: "apply_writes ((p, v) # ws) m = apply_writes ws (m(p := v))"
  by (simp add: apply_writes_def)

lemma apply_writes_append [simp]:
  "apply_writes (xs @ ys) m = apply_writes ys (apply_writes xs m)"
  by (simp add: apply_writes_def)

lemma decode_loop_eq:
  "decode_loop word_size narray i s
     = s\<lparr>tile_1d := decoded_samples word_size narray i (buf s) (tile_1d s)\<rparr>"
proof (induction word_size narray i s rule: decode_loop.induct)
  case (1 word_size narray i s)
  show ?case
  proof (cases "i < narray")
    case True
    have "decode_loop word_size narray i s
            = decode_loop word_size narray (i + 1) (decode_sample word_size i s)"
      using True by (simp add: decode_loop.simps [of word_size narray i])
    also have "\<dots> = (decode_sample word_size i s)
            \<lparr>tile_1d := decoded_samples word_size narray (i + 1)
                          (buf (decode_sample word_size i s))
                          (tile_1d (decode_sample word_size i s))\<rparr>"
      using True by (rule "1.IH")
    also have "\<dots> = s\<lparr>tile_1d := decoded_samples word_size narray i (buf s) (tile_1d s)\<rparr>"
      using True by (auto simp add: decode_sample_def decoded_samples_def fun_eq_iff)
    finally show ?thesis .
  next
    case False
    then have "decoded_samples word_size narray i (buf s) (tile_1d s) = tile_1d s"
      by (auto simp add: decoded_samples_def fun_eq_iff)
    with False show ?thesis
      by (simp add: decode_loop.simps [of word_size narray i])
  qed
qed

lemma remap_inner_eq:
  "remap_inner dx dy x_offset y_offset j i s
     = s\<lparr>tile := apply_writes
                   (column_writes dx x_offset (tile_1d s) j [i..dy + y_offset - 1]) (tile s),
         stores := stores s @ column_writes dx x_offset (tile_1d s) j [i..dy + y_offset - 1]\<rparr>"
proof (induction dx dy x_offset y_offset j i s rule: remap_inner.induct)
  case (1 dx dy x_offset y_offset j i s)
  show ?case
  proof (cases "i < dy + y_offset")
    case True
    then have u: "[i..dy + y_offset - 1] = i # [i + 1..dy + y_offset - 1]"
      by (simp add: upto_rec1)
    show ?thesis
      using True
      by (subst remap_inner.simps, simp add: "1.IH" u)
         (simp add: tile_store_def column_writes_def)
  next
    case False
    then show ?thesis
      by (simp add: remap_inner.simps [of dx dy x_offset y_offset j i] column_writes_def)
  qed
qed

lemma remap_outer_eq:
  "remap_outer dx dy x_offset y_offset j s
     = s\<lparr>tile := apply_writes
                   (remap_writes dx dy x_offset y_offset (tile_1d s) [j..dx + x_offset - 1])
                   (tile s),
         stores := stores s
                   @ remap_writes dx dy x_offset y_offset (tile_1d s) [j..dx + x_offset - 1]\<rparr>"
proof (induction dx dy x_offset y_offset j s rule: remap_outer.induct)
  case (1 dx dy x_offset y_offset j s)
  show ?case
  proof (cases "j < dx + x_offset")
    case True
    then have u: "[j..dx + x_offset - 1] = j # [j + 1..dx + x_offset - 1]"
      by (simp add: upto_rec1)
    show ?thesis
      using True
      by (subst remap_outer.simps, simp add: "1.IH" u)
         (simp add: remap_inner_eq remap_writes_def)
  next
    case False
    then show ?thesis
      by (simp add: remap_outer.simps [of dx dy x_offset y_offset j] remap_writes_def)
  qed
qed

subsection \<open>The four exits of the function\<close>

lemma c_get_tile_open_fails:
  assumes "files w file = None"
  shows "c_get_tile w heap0 stack0 file dx dy x_offset y_offset word_size tile0
         = (- 1, \<lparr>buf = heap0, tile_1d = stack0, tile = tile0, stores = [],
                   trace = [Malloc (word_size * ((dx + x_offset) * (dy + y_offset))),
                            Open file, Perror ''OPEN ERROR: '',
                            Printf (''C filename was: '' @ file @ [CHR 0x0A])]\<rparr>)"
  using assms by (simp add: c_get_tile_def Let_def log_def)

lemma c_get_tile_read_fails:
  assumes "files w file = Some contents" "read_fails w"
  shows "c_get_tile w heap0 stack0 file dx dy x_offset y_offset word_size tile0
         = (- 1, \<lparr>buf = heap0, tile_1d = stack0, tile = tile0, stores = [],
                   trace = [Malloc (word_size * ((dx + x_offset) * (dy + y_offset))),
                            Open file,
                            Read (word_size * ((dx + x_offset) * (dy + y_offset))) (- 1),
                            Perror ''READ ERROR: '']\<rparr>)"
  using assms by (simp add: c_get_tile_def os_read_def Let_def log_def)

lemma c_get_tile_close_fails:
  assumes "files w file = Some contents" "\<not> read_fails w" "close_fails w"
  shows "c_get_tile w heap0 stack0 file dx dy x_offset y_offset word_size tile0
         = (let count = word_size * ((dx + x_offset) * (dy + y_offset));
                data = take (nat count) contents
            in (- 1, \<lparr>buf = read_into data heap0, tile_1d = stack0, tile = tile0, stores = [],
                      trace = [Malloc count, Open file, Read count (int (length data)), Close,
                               Perror ''CLOSE ERROR: '']\<rparr>))"
  using assms by (simp add: c_get_tile_def os_read_def Let_def log_def)

lemma c_get_tile_success:
  assumes "files w file = Some contents" "\<not> read_fails w" "\<not> close_fails w"
  shows "c_get_tile w heap0 stack0 file dx dy x_offset y_offset word_size tile0
         = (let narray = (dx + x_offset) * (dy + y_offset);
                data = take (nat (word_size * narray)) contents;
                b = read_into data heap0;
                t = decoded_samples word_size narray 0 b stack0;
                ws = remap_writes dx dy x_offset y_offset t [0..dx + x_offset - 1]
            in (1, \<lparr>buf = b, tile_1d = t, tile = apply_writes ws tile0, stores = ws,
                      trace = [Malloc (word_size * narray), Open file,
                               Read (word_size * narray) (int (length data)), Close, Free]\<rparr>))"
  using assms
  by (simp add: c_get_tile_def os_read_def Let_def log_def decode_loop_eq remap_outer_eq)

lemma failure_state:
  assumes "fst (c_get_tile w heap0 stack0 file dx dy x_offset y_offset word_size tile0) \<noteq> 1"
  shows "tile (snd (c_get_tile w heap0 stack0 file dx dy x_offset y_offset word_size tile0)) = tile0
       \<and> tile_1d (snd (c_get_tile w heap0 stack0 file dx dy x_offset y_offset word_size tile0)) = stack0
       \<and> stores (snd (c_get_tile w heap0 stack0 file dx dy x_offset y_offset word_size tile0)) = []
       \<and> Free \<notin> set (trace (snd (c_get_tile w heap0 stack0 file dx dy x_offset y_offset word_size tile0)))"
proof (cases "files w file")
  case None
  then show ?thesis by (simp add: c_get_tile_open_fails)
next
  case (Some contents)
  show ?thesis
  proof (cases "read_fails w")
    case True
    with Some show ?thesis by (simp add: c_get_tile_read_fails)
  next
    case rd: False
    show ?thesis
    proof (cases "close_fails w")
      case True
      with Some rd show ?thesis by (simp add: c_get_tile_close_fails Let_def)
    next
      case False
      with Some rd assms show ?thesis by (simp add: c_get_tile_success Let_def)
    qed
  qed
qed

section \<open>The claims\<close>

subsection \<open>Status and exits\<close>

text \<open>
  Claim C3 says that the byte buffer allocated at line 60 is released on every exit of
  the call. The code does not do that: \<^verbatim>\<open>free(buf)\<close> stands at line 107 only, after the
  three early \<^verbatim>\<open>return -1\<close>. On the example file, a call that fails to open, a call whose
  read fails and a call whose close fails each return \<open>-1\<close> with the buffer allocated and
  never freed; the successful call frees it.
\<close>

theorem C3_buffer_not_freed_on_failure:
  "fst (c_get_tile os_ok zero_bytes zero_floats ''missing.bin'' 2 2 0 0 2 zero_floats) = - 1
   \<and> Malloc 8 \<in> set (trace (snd (c_get_tile os_ok zero_bytes zero_floats ''missing.bin'' 2 2 0 0 2 zero_floats)))
   \<and> Free \<notin> set (trace (snd (c_get_tile os_ok zero_bytes zero_floats ''missing.bin'' 2 2 0 0 2 zero_floats)))
   \<and> fst (c_get_tile os_read_error zero_bytes zero_floats ''tile.bin'' 2 2 0 0 2 zero_floats) = - 1
   \<and> Malloc 8 \<in> set (trace (snd (c_get_tile os_read_error zero_bytes zero_floats ''tile.bin'' 2 2 0 0 2 zero_floats)))
   \<and> Free \<notin> set (trace (snd (c_get_tile os_read_error zero_bytes zero_floats ''tile.bin'' 2 2 0 0 2 zero_floats)))
   \<and> fst (c_get_tile os_close_error zero_bytes zero_floats ''tile.bin'' 2 2 0 0 2 zero_floats) = - 1
   \<and> Malloc 8 \<in> set (trace (snd (c_get_tile os_close_error zero_bytes zero_floats ''tile.bin'' 2 2 0 0 2 zero_floats)))
   \<and> Free \<notin> set (trace (snd (c_get_tile os_close_error zero_bytes zero_floats ''tile.bin'' 2 2 0 0 2 zero_floats)))
   \<and> fst (c_get_tile os_ok zero_bytes zero_floats ''tile.bin'' 2 2 0 0 2 zero_floats) = 1
   \<and> Free \<in> set (trace (snd (c_get_tile os_ok zero_bytes zero_floats ''tile.bin'' 2 2 0 0 2 zero_floats)))"
  by (simp add: c_get_tile_open_fails c_get_tile_read_fails c_get_tile_close_fails c_get_tile_success
        os_ok_def os_read_error_def os_close_error_def tile_files_def Let_def)

text \<open>
  Claim C4: the call returns 1 exactly when the open, the read and the close all succeed,
  and \<open>-1\<close> otherwise, whichever of the three failed.
\<close>

theorem C4_status_is_1_iff_all_io_succeeds:
  "fst (c_get_tile w heap0 stack0 file dx dy x_offset y_offset word_size tile0)
     = (if files w file \<noteq> None \<and> \<not> read_fails w \<and> \<not> close_fails w then 1 else - 1)"
proof (cases "files w file")
  case None
  then show ?thesis by (simp add: c_get_tile_open_fails)
next
  case (Some contents)
  show ?thesis
  proof (cases "read_fails w")
    case True
    with Some show ?thesis by (simp add: c_get_tile_read_fails)
  next
    case rd: False
    show ?thesis
    proof (cases "close_fails w")
      case True
      with Some rd show ?thesis by (simp add: c_get_tile_close_fails Let_def)
    next
      case False
      with Some rd show ?thesis by (simp add: c_get_tile_success Let_def)
    qed
  qed
qed

theorem C4_witness:
  "fst (c_get_tile os_ok zero_bytes zero_floats ''tile.bin'' 2 2 0 0 2 zero_floats) = 1
   \<and> fst (c_get_tile os_ok zero_bytes zero_floats ''missing.bin'' 2 2 0 0 2 zero_floats) = - 1
   \<and> fst (c_get_tile os_read_error zero_bytes zero_floats ''tile.bin'' 2 2 0 0 2 zero_floats) = - 1
   \<and> fst (c_get_tile os_close_error zero_bytes zero_floats ''tile.bin'' 2 2 0 0 2 zero_floats) = - 1"
  using C4_status_is_1_iff_all_io_succeeds [of os_ok zero_bytes zero_floats "''tile.bin''" 2 2 0 0 2 zero_floats]
        C4_status_is_1_iff_all_io_succeeds [of os_ok zero_bytes zero_floats "''missing.bin''" 2 2 0 0 2 zero_floats]
        C4_status_is_1_iff_all_io_succeeds [of os_read_error zero_bytes zero_floats "''tile.bin''" 2 2 0 0 2 zero_floats]
        C4_status_is_1_iff_all_io_succeeds [of os_close_error zero_bytes zero_floats "''tile.bin''" 2 2 0 0 2 zero_floats]
  by (simp add: os_ok_def os_read_error_def os_close_error_def tile_files_def)

text \<open>
  Claim C5: when the call returns \<open>-1\<close>, for any of the three causes, it has made no write
  to the caller's output array, which holds what it held before the call.
\<close>

theorem C5_failure_leaves_output_unwritten:
  assumes "fst (c_get_tile w heap0 stack0 file dx dy x_offset y_offset word_size tile0) = - 1"
  shows "tile (snd (c_get_tile w heap0 stack0 file dx dy x_offset y_offset word_size tile0)) = tile0
       \<and> stores (snd (c_get_tile w heap0 stack0 file dx dy x_offset y_offset word_size tile0)) = []"
  using assms failure_state [of w heap0 stack0 "file" dx dy x_offset y_offset word_size tile0]
  by simp

theorem C5_witness:
  "fst (c_get_tile os_ok zero_bytes zero_floats ''missing.bin'' 2 2 0 0 2 seven_floats) = - 1
   \<and> tile (snd (c_get_tile os_ok zero_bytes zero_floats ''missing.bin'' 2 2 0 0 2 seven_floats)) = seven_floats
   \<and> stores (snd (c_get_tile os_ok zero_bytes zero_floats ''missing.bin'' 2 2 0 0 2 seven_floats)) = []
   \<and> fst (c_get_tile os_read_error zero_bytes zero_floats ''tile.bin'' 2 2 0 0 2 seven_floats) = - 1
   \<and> tile (snd (c_get_tile os_read_error zero_bytes zero_floats ''tile.bin'' 2 2 0 0 2 seven_floats)) = seven_floats
   \<and> fst (c_get_tile os_close_error zero_bytes zero_floats ''tile.bin'' 2 2 0 0 2 seven_floats) = - 1
   \<and> tile (snd (c_get_tile os_close_error zero_bytes zero_floats ''tile.bin'' 2 2 0 0 2 seven_floats)) = seven_floats"
proof -
  have a: "fst (c_get_tile os_ok zero_bytes zero_floats ''missing.bin'' 2 2 0 0 2 seven_floats) = - 1"
    by (simp add: c_get_tile_open_fails os_ok_def tile_files_def)
  have b: "fst (c_get_tile os_read_error zero_bytes zero_floats ''tile.bin'' 2 2 0 0 2 seven_floats) = - 1"
    by (simp add: c_get_tile_read_fails os_read_error_def tile_files_def)
  have c: "fst (c_get_tile os_close_error zero_bytes zero_floats ''tile.bin'' 2 2 0 0 2 seven_floats) = - 1"
    by (simp add: c_get_tile_close_fails os_close_error_def tile_files_def Let_def)
  show ?thesis
    using a b c C5_failure_leaves_output_unwritten [OF a]
      C5_failure_leaves_output_unwritten [OF b] C5_failure_leaves_output_unwritten [OF c]
    by simp
qed

text \<open>
  Claim C10: when the read fails, the call returns \<open>-1\<close> and has opened the file but not
  closed it; \<^verbatim>\<open>close\<close> is called exactly on the paths where the file opened and the read
  succeeded.
\<close>

theorem C10_read_error_exit_skips_close:
  "(files w file \<noteq> None \<and> read_fails w \<longrightarrow>
      fst (c_get_tile w heap0 stack0 file dx dy x_offset y_offset word_size tile0) = - 1
      \<and> Open file \<in> set (trace (snd (c_get_tile w heap0 stack0 file dx dy x_offset y_offset word_size tile0)))
      \<and> Close \<notin> set (trace (snd (c_get_tile w heap0 stack0 file dx dy x_offset y_offset word_size tile0))))
   \<and> (Close \<in> set (trace (snd (c_get_tile w heap0 stack0 file dx dy x_offset y_offset word_size tile0)))
        \<longleftrightarrow> files w file \<noteq> None \<and> \<not> read_fails w)"
proof (cases "files w file")
  case None
  then show ?thesis by (simp add: c_get_tile_open_fails)
next
  case (Some contents)
  show ?thesis
  proof (cases "read_fails w")
    case True
    with Some show ?thesis by (simp add: c_get_tile_read_fails)
  next
    case rd: False
    show ?thesis
    proof (cases "close_fails w")
      case True
      with Some rd show ?thesis by (simp add: c_get_tile_close_fails Let_def)
    next
      case False
      with Some rd show ?thesis by (simp add: c_get_tile_success Let_def)
    qed
  qed
qed

theorem C10_witness:
  "files os_read_error ''tile.bin'' \<noteq> None \<and> read_fails os_read_error
   \<and> fst (c_get_tile os_read_error zero_bytes zero_floats ''tile.bin'' 2 2 0 0 2 zero_floats) = - 1
   \<and> Open ''tile.bin'' \<in> set (trace (snd (c_get_tile os_read_error zero_bytes zero_floats ''tile.bin'' 2 2 0 0 2 zero_floats)))
   \<and> Close \<notin> set (trace (snd (c_get_tile os_read_error zero_bytes zero_floats ''tile.bin'' 2 2 0 0 2 zero_floats)))
   \<and> Close \<in> set (trace (snd (c_get_tile os_ok zero_bytes zero_floats ''tile.bin'' 2 2 0 0 2 zero_floats)))"
  using C10_read_error_exit_skips_close [of os_read_error "''tile.bin''" zero_bytes zero_floats 2 2 0 0 2 zero_floats]
        C10_read_error_exit_skips_close [of os_ok "''tile.bin''" zero_bytes zero_floats 2 2 0 0 2 zero_floats]
  by (simp add: os_read_error_def os_ok_def tile_files_def)

subsection \<open>Decoding\<close>

lemma success_state:
  assumes "c_get_tile w heap0 stack0 file dx dy x_offset y_offset word_size tile0 = (1, s)"
  shows "\<exists>contents. files w file = Some contents \<and> \<not> read_fails w \<and> \<not> close_fails w
           \<and> buf s = read_into (take (nat (word_size * ((dx + x_offset) * (dy + y_offset)))) contents) heap0
           \<and> tile_1d s = decoded_samples word_size ((dx + x_offset) * (dy + y_offset)) 0 (buf s) stack0
           \<and> stores s = remap_writes dx dy x_offset y_offset (tile_1d s) [0..dx + x_offset - 1]
           \<and> tile s = apply_writes (stores s) tile0"
proof (cases "files w file")
  case None
  with assms show ?thesis by (simp add: c_get_tile_open_fails)
next
  case (Some contents)
  show ?thesis
  proof (cases "read_fails w")
    case True
    with Some assms show ?thesis by (simp add: c_get_tile_read_fails)
  next
    case rd: False
    show ?thesis
    proof (cases "close_fails w")
      case True
      with Some rd assms show ?thesis by (simp add: c_get_tile_close_fails Let_def)
    next
      case False
      with Some rd assms show ?thesis by (auto simp add: c_get_tile_success Let_def)
    qed
  qed
qed

lemma uint_or_bytes:
  "uint (push_bit 8 (ucast b0) OR ucast b1 :: 32 word) = 256 * uint b0 + uint b1"
  for b0 b1 :: byte
proof -
  have b: "0 \<le> uint b0" "uint b0 < 256" "0 \<le> uint b1" "uint b1 < 256"
    using uint_byte_bounds [of b0] uint_byte_bounds [of b1] by simp_all
  have "uint (push_bit 8 (ucast b0) OR ucast b1 :: 32 word)
          = uint (word_of_int (256 * uint b0 + uint b1) :: 32 word)"
    by (simp only: or_bytes)
  also have "\<dots> = (256 * uint b0 + uint b1) mod 4294967296"
    by (simp only: uint_word_of_int) simp
  also have "\<dots> = 256 * uint b0 + uint b1"
    using b by (intro mod_pos_pos_trivial) linarith+
  finally show ?thesis .
qed

lemma binary32_small_int:
  assumes "\<bar>v\<bar> < 16777216"
  shows "is_binary32 (real_of_int v)"
  unfolding is_binary32_def
proof (intro exI conjI)
  show "\<bar>v\<bar> < 2 ^ 24" using assms by simp
  show "- 149 \<le> (0::int)" by simp
  show "(0::int) \<le> 104" by simp
  show "real_of_int v = real_of_int v * 2 powi 0" by simp
qed

text \<open>
  Claim C2: in a call with \<open>word_size = 2\<close> that returns 1, each sample \<open>k\<close> of the sample
  array is the first byte of its pair shifted left by 8 bits and or-ed with the second byte,
  minus \<open>2 ^ 16\<close> when the top bit of the first byte is set; that is the pair read as a
  big-endian two's-complement 16-bit number. The pair FF FF decodes to -1, 00 01 to 1,
  7F FF to 32767 and 80 00 to -32768.
\<close>

theorem C2_word_size_2_big_endian_sign_extended:
  assumes "c_get_tile w heap0 stack0 file dx dy x_offset y_offset 2 tile0 = (1, s)"
      and "0 \<le> k" "k < (dx + x_offset) * (dy + y_offset)"
  shows "tile_1d s k
           = real_of_int (uint (push_bit 8 (ucast (buf s (2 * k))) OR ucast (buf s (2 * k + 1)) :: 32 word)
                          - (if bit (buf s (2 * k)) 7 then 2 ^ 16 else 0))
       \<and> tile_1d s k = real_of_int (sint (word_cat (buf s (2 * k)) (buf s (2 * k + 1)) :: 16 word))
       \<and> real_of_int (sint (sample_value 2 0xFF 0xFF)) = - 1
       \<and> real_of_int (sint (sample_value 2 0x00 0x01)) = 1
       \<and> real_of_int (sint (sample_value 2 0x7F 0xFF)) = 32767
       \<and> real_of_int (sint (sample_value 2 0x80 0x00)) = - 32768"
proof -
  from success_state [OF assms(1)]
  have t: "tile_1d s = decoded_samples 2 ((dx + x_offset) * (dy + y_offset)) 0 (buf s) stack0"
    by blast
  have k: "tile_1d s k = real_of_int (sint (sample_value 2 (buf s (2 * k)) (buf s (2 * k + 1))))"
    using assms(2,3) by (simp add: t decoded_samples_def)
  have a: "tile_1d s k
           = real_of_int (uint (push_bit 8 (ucast (buf s (2 * k))) OR ucast (buf s (2 * k + 1)) :: 32 word)
                          - (if bit (buf s (2 * k)) 7 then 2 ^ 16 else 0))"
    unfolding k sample_value_2_int uint_or_bytes bit_7_byte by simp
  have b: "tile_1d s k = real_of_int (sint (word_cat (buf s (2 * k)) (buf s (2 * k + 1)) :: 16 word))"
    unfolding k sample_value_2_word_cat ..
  have c: "real_of_int (sint (sample_value 2 0xFF 0xFF)) = - 1"
          "real_of_int (sint (sample_value 2 0x00 0x01)) = 1"
          "real_of_int (sint (sample_value 2 0x7F 0xFF)) = 32767"
          "real_of_int (sint (sample_value 2 0x80 0x00)) = - 32768"
    by (simp_all add: sample_value_def)
  from a b c show ?thesis by blast
qed

theorem C2_witness:
  "c_get_tile os_ok zero_bytes zero_floats ''tile.bin'' 2 2 0 0 2 zero_floats
     = (1, snd (c_get_tile os_ok zero_bytes zero_floats ''tile.bin'' 2 2 0 0 2 zero_floats))
   \<and> (0::int) \<le> 3 \<and> (3::int) < (2 + 0) * (2 + 0)
   \<and> tile_1d (snd (c_get_tile os_ok zero_bytes zero_floats ''tile.bin'' 2 2 0 0 2 zero_floats)) 3 = - 100"
proof -
  have h: "c_get_tile os_ok zero_bytes zero_floats ''tile.bin'' 2 2 0 0 2 zero_floats
             = (1, snd (c_get_tile os_ok zero_bytes zero_floats ''tile.bin'' 2 2 0 0 2 zero_floats))"
    by (simp add: c_get_tile_success os_ok_def tile_files_def Let_def)
  have b: "buf (snd (c_get_tile os_ok zero_bytes zero_floats ''tile.bin'' 2 2 0 0 2 zero_floats))
             = read_into tile_bytes zero_bytes"
    by (simp add: c_get_tile_success os_ok_def tile_files_def Let_def tile_bytes_def)
  have k: "(0::int) \<le> 3" "(3::int) < (2 + 0) * (2 + 0)" by simp_all
  from C2_word_size_2_big_endian_sign_extended [OF h k]
  have "tile_1d (snd (c_get_tile os_ok zero_bytes zero_floats ''tile.bin'' 2 2 0 0 2 zero_floats)) 3
          = real_of_int (sint (word_cat (read_into tile_bytes zero_bytes (2 * 3))
                                        (read_into tile_bytes zero_bytes (2 * 3 + 1)) :: 16 word))"
    unfolding b by blast
  also have "\<dots> = - 100"
    by (simp add: read_into_def tile_bytes_def word_cat_bytes)
  finally show ?thesis using h k by (intro conjI)
qed

text \<open>
  Claim C9: in a call with \<open>word_size = 2\<close> that returns 1, every decoded sample is an
  integer between -32768 and 32767 before it is converted to \<^verbatim>\<open>float\<close>, and so is a value
  of the single-precision format: the conversion is exact.
\<close>

theorem C9_samples_in_int16_range:
  assumes "c_get_tile w heap0 stack0 file dx dy x_offset y_offset 2 tile0 = (1, s)"
      and "0 \<le> k" "k < (dx + x_offset) * (dy + y_offset)"
  shows "(\<exists>v. tile_1d s k = real_of_int v
             \<and> v = sint (sample_value 2 (buf s (2 * k)) (buf s (2 * k + 1)))
             \<and> - 32768 \<le> v \<and> v \<le> 32767)
       \<and> is_binary32 (tile_1d s k)"
proof -
  from success_state [OF assms(1)]
  have t: "tile_1d s = decoded_samples 2 ((dx + x_offset) * (dy + y_offset)) 0 (buf s) stack0"
    by blast
  have k: "tile_1d s k = real_of_int (sint (sample_value 2 (buf s (2 * k)) (buf s (2 * k + 1))))"
    using assms(2,3) by (simp add: t decoded_samples_def)
  have r: "- 32768 \<le> sint (sample_value 2 (buf s (2 * k)) (buf s (2 * k + 1)))"
          "sint (sample_value 2 (buf s (2 * k)) (buf s (2 * k + 1))) \<le> 32767"
    using sample_value_2_range [of "buf s (2 * k)" "buf s (2 * k + 1)"] by simp_all
  from r have "\<bar>sint (sample_value 2 (buf s (2 * k)) (buf s (2 * k + 1)))\<bar> < 16777216"
    by linarith
  then have "is_binary32 (tile_1d s k)"
    unfolding k by (rule binary32_small_int)
  with k r show ?thesis by blast
qed

theorem C9_witness:
  "c_get_tile os_ok zero_bytes zero_floats ''tile.bin'' 2 2 0 0 2 zero_floats
     = (1, snd (c_get_tile os_ok zero_bytes zero_floats ''tile.bin'' 2 2 0 0 2 zero_floats))
   \<and> (0::int) \<le> 1 \<and> (1::int) < (2 + 0) * (2 + 0)
   \<and> is_binary32 (tile_1d (snd (c_get_tile os_ok zero_bytes zero_floats ''tile.bin'' 2 2 0 0 2 zero_floats)) 1)"
proof -
  have h: "c_get_tile os_ok zero_bytes zero_floats ''tile.bin'' 2 2 0 0 2 zero_floats
             = (1, snd (c_get_tile os_ok zero_bytes zero_floats ''tile.bin'' 2 2 0 0 2 zero_floats))"
    by (simp add: c_get_tile_success os_ok_def tile_files_def Let_def)
  have k: "(0::int) \<le> 1" "(1::int) < (2 + 0) * (2 + 0)" by simp_all
  from C9_samples_in_int16_range [OF h k]
  have "is_binary32 (tile_1d (snd (c_get_tile os_ok zero_bytes zero_floats ''tile.bin'' 2 2 0 0 2 zero_floats)) 1)"
    by (rule conjunct2)
  with h k show ?thesis by (intro conjI)
qed

lemma decoded_samples_other_width:
  "word_size \<noteq> 2 \<Longrightarrow> decoded_samples word_size narray i0 b t = t"
  by (simp add: decoded_samples_def fun_eq_iff)

lemma request_in_range_bounds:
  assumes "request_in_range dx dy x_offset y_offset word_size"
  shows "0 < dx + x_offset \<and> dx + x_offset \<le> 2147483647
       \<and> 0 < dy + y_offset \<and> dy + y_offset \<le> 2147483647
       \<and> 0 < (dx + x_offset) * (dy + y_offset)
       \<and> (dx + x_offset) * (dy + y_offset) \<le> 2147483647
       \<and> 0 < word_size * ((dx + x_offset) * (dy + y_offset))
       \<and> word_size \<le> 2147483647"
proof -
  define W where "W = dx + x_offset"
  define H where "H = dy + y_offset"
  have W: "1 \<le> W" and H: "1 \<le> H" and ws: "1 \<le> word_size"
    and c: "word_size * (W * H) \<le> 2147483647"
    using assms by (simp_all add: request_in_range_def W_def H_def)
  have n: "1 \<le> W * H"
    using W H by (metis mult_mono mult_1 zero_le_one order_trans)
  have "W * 1 \<le> W * H"
    using W H by (intro mult_left_mono) simp_all
  then have wn: "W \<le> W * H" by simp
  have "1 * H \<le> W * H"
    using W H by (intro mult_right_mono) simp_all
  then have hn: "H \<le> W * H" by simp
  have "1 * (W * H) \<le> word_size * (W * H)"
    using ws n by (intro mult_right_mono) simp_all
  then have nc: "W * H \<le> word_size * (W * H)" by simp
  have "word_size * 1 \<le> word_size * (W * H)"
    using ws n by (intro mult_left_mono) simp_all
  then have wc: "word_size \<le> word_size * (W * H)" by simp
  from W H n wn hn nc wc c
  have "0 < W \<and> W \<le> 2147483647 \<and> 0 < H \<and> H \<le> 2147483647 \<and> 0 < W * H
        \<and> W * H \<le> 2147483647 \<and> 0 < word_size * (W * H) \<and> word_size \<le> 2147483647"
    by linarith
  then show ?thesis
    by (simp add: W_def H_def)
qed

lemma request_in_range_size_t:
  assumes "request_in_range dx dy x_offset y_offset word_size"
  shows "size_t_of (word_size * ((dx + x_offset) * (dy + y_offset)))
           = word_size * ((dx + x_offset) * (dy + y_offset))
       \<and> size_t_of (size_t_of word_size * size_t_of ((dx + x_offset) * (dy + y_offset)))
           = word_size * ((dx + x_offset) * (dy + y_offset))"
proof -
  note b = request_in_range_bounds [OF assms]
  have a: "size_t_of x = x" if "0 \<le> x" "x \<le> 2147483647" for x
    using that by (simp add: size_t_of_def mod_pos_pos_trivial)
  have c: "word_size * ((dx + x_offset) * (dy + y_offset)) \<le> 2147483647"
    using assms by (simp add: request_in_range_def)
  have 1: "size_t_of (word_size * ((dx + x_offset) * (dy + y_offset)))
             = word_size * ((dx + x_offset) * (dy + y_offset))"
    using b c by (intro a) linarith+
  have 2: "size_t_of word_size = word_size"
    using b assms by (intro a) (simp_all add: request_in_range_def)
  have 3: "size_t_of ((dx + x_offset) * (dy + y_offset)) = (dx + x_offset) * (dy + y_offset)"
    using b by (intro a) linarith+
  show ?thesis
    by (simp only: 1 2 3)
qed







subsection \<open>Remapping\<close>

lemma remap_writes_member:
  assumes "0 \<le> i" "i < dy + y_offset" "j \<in> set cols"
  shows "(i * dx + j, t ((dx + x_offset) * j + i)) \<in> set (remap_writes dx dy x_offset y_offset t cols)"
proof -
  have "(i * dx + j, t ((dx + x_offset) * j + i))
          \<in> set (column_writes dx x_offset t j [0..dy + y_offset - 1])"
    using assms(1,2) by (auto simp add: column_writes_def intro!: image_eqI [where x = i])
  with assms(3) show ?thesis
    by (auto simp add: remap_writes_def)
qed

lemma remap_writes_last:
  assumes "0 < dx + x_offset" "0 < dy + y_offset"
  shows "remap_writes dx dy x_offset y_offset t [0..dx + x_offset - 1]
           = butlast (remap_writes dx dy x_offset y_offset t [0..dx + x_offset - 1])
             @ [((dy + y_offset - 1) * dx + (dx + x_offset - 1),
                 t ((dx + x_offset) * (dx + x_offset - 1) + (dy + y_offset - 1)))]"
proof -
  have c: "[0..dx + x_offset - 1] = [0..dx + x_offset - 1 - 1] @ [dx + x_offset - 1]"
    using assms(1) by (intro upto_rec2) simp
  have r: "[0..dy + y_offset - 1] = [0..dy + y_offset - 1 - 1] @ [dy + y_offset - 1]"
    using assms(2) by (intro upto_rec2) simp
  have "remap_writes dx dy x_offset y_offset t [0..dx + x_offset - 1]
          = (remap_writes dx dy x_offset y_offset t [0..dx + x_offset - 1 - 1]
             @ column_writes dx x_offset t (dx + x_offset - 1) [0..dy + y_offset - 1 - 1])
            @ [((dy + y_offset - 1) * dx + (dx + x_offset - 1),
                 t ((dx + x_offset) * (dx + x_offset - 1) + (dy + y_offset - 1)))]"
    by (subst c, simp add: remap_writes_def, subst r, simp add: column_writes_def)
  then show ?thesis
    by (metis butlast_snoc)
qed

lemma apply_writes_snoc: "apply_writes (ws @ [(p, v)]) m p = v"
  by simp

lemma out_of_range_index:
  fixes dx dy x_offset y_offset :: int
  assumes "0 < dx" "0 < dy" "0 \<le> x_offset" "0 \<le> y_offset" "0 < x_offset \<or> 0 < y_offset"
  shows "dx * dy \<le> (dy + y_offset - 1) * dx + (dx + x_offset - 1)"
proof -
  have e: "(dy + y_offset - 1) * dx + (dx + x_offset - 1)
             = dx * dy + y_offset * dx + x_offset - 1"
    by (simp add: algebra_simps)
  have p: "0 \<le> y_offset * dx"
    using assms by simp
  show ?thesis
  proof (cases "0 < y_offset")
    case True
    then have "1 \<le> y_offset * dx"
      using assms(1) by (metis int_one_le_iff_zero_less mult_pos_pos)
    with assms(3) show ?thesis unfolding e by linarith
  next
    case False
    with assms(5) have "0 < x_offset" by simp
    with p show ?thesis unfolding e by linarith
  qed
qed

text \<open>
  Claim C1: in every call that reaches the remapping loops (the calls that return 1), for
  each \<open>i\<close> in \<open>[0, dy + y_offset)\<close> and each \<open>j\<close> in \<open>[0, dx + x_offset)\<close> the sample at
  position \<open>(dx + x_offset) * j + i\<close> is written to the output position \<open>i * dx + j\<close>; the
  writes are exactly these, column by column, and the output is the caller's array with
  these writes applied. The loops run over the whole padded extent: for positive \<open>dx\<close>,
  \<open>dy\<close> and offsets that are not both zero, the last write goes to the position
  \<open>(dy + y_offset - 1) * dx + (dx + x_offset - 1)\<close>, which is at or past the end \<open>dx * dy\<close>
  of the output array, and the memory there holds the written sample afterwards.
\<close>

theorem C1_remap_writes_over_padded_extent:
  assumes "c_get_tile w heap0 stack0 file dx dy x_offset y_offset word_size tile0 = (1, s)"
  shows "(\<forall>i j. 0 \<le> i \<and> i < dy + y_offset \<and> 0 \<le> j \<and> j < dx + x_offset \<longrightarrow>
            (i * dx + j, tile_1d s ((dx + x_offset) * j + i)) \<in> set (stores s))
       \<and> stores s = remap_writes dx dy x_offset y_offset (tile_1d s) [0..dx + x_offset - 1]
       \<and> tile s = apply_writes (stores s) tile0
       \<and> (0 < dx \<and> 0 < dy \<and> 0 \<le> x_offset \<and> 0 \<le> y_offset \<and> (0 < x_offset \<or> 0 < y_offset) \<longrightarrow>
            dx * dy \<le> (dy + y_offset - 1) * dx + (dx + x_offset - 1)
            \<and> ((dy + y_offset - 1) * dx + (dx + x_offset - 1),
                tile_1d s ((dx + x_offset) * (dx + x_offset - 1) + (dy + y_offset - 1)))
                \<in> set (stores s)
            \<and> tile s ((dy + y_offset - 1) * dx + (dx + x_offset - 1))
                = tile_1d s ((dx + x_offset) * (dx + x_offset - 1) + (dy + y_offset - 1)))"
proof -
  from success_state [OF assms]
  have st: "stores s = remap_writes dx dy x_offset y_offset (tile_1d s) [0..dx + x_offset - 1]"
    and ti: "tile s = apply_writes (stores s) tile0"
    by blast+
  have mem: "(i * dx + j, tile_1d s ((dx + x_offset) * j + i)) \<in> set (stores s)"
    if "0 \<le> i" "i < dy + y_offset" "0 \<le> j" "j < dx + x_offset" for i j
    unfolding st using that by (intro remap_writes_member) simp_all
  have oob: "dx * dy \<le> (dy + y_offset - 1) * dx + (dx + x_offset - 1)
            \<and> ((dy + y_offset - 1) * dx + (dx + x_offset - 1),
                tile_1d s ((dx + x_offset) * (dx + x_offset - 1) + (dy + y_offset - 1)))
                \<in> set (stores s)
            \<and> tile s ((dy + y_offset - 1) * dx + (dx + x_offset - 1))
                = tile_1d s ((dx + x_offset) * (dx + x_offset - 1) + (dy + y_offset - 1))"
    if h: "0 < dx" "0 < dy" "0 \<le> x_offset" "0 \<le> y_offset" "0 < x_offset \<or> 0 < y_offset"
  proof -
    have pos: "0 < dx + x_offset" "0 < dy + y_offset"
      using h by simp_all
    have l: "stores s = butlast (stores s)
               @ [((dy + y_offset - 1) * dx + (dx + x_offset - 1),
                   tile_1d s ((dx + x_offset) * (dx + x_offset - 1) + (dy + y_offset - 1)))]"
      using remap_writes_last [OF pos, of "tile_1d s"] unfolding st [symmetric] .
    have "tile s ((dy + y_offset - 1) * dx + (dx + x_offset - 1))
            = tile_1d s ((dx + x_offset) * (dx + x_offset - 1) + (dy + y_offset - 1))"
      unfolding ti by (subst l) (rule apply_writes_snoc)
    moreover have "((dy + y_offset - 1) * dx + (dx + x_offset - 1),
                tile_1d s ((dx + x_offset) * (dx + x_offset - 1) + (dy + y_offset - 1)))
                \<in> set (stores s)"
      by (subst l) simp
    ultimately show ?thesis
      using out_of_range_index [OF h] by blast
  qed
  from st ti mem oob show ?thesis by blast
qed

theorem C1_witness:
  "c_get_tile os_ok zero_bytes seven_floats ''tile.bin'' 1 1 1 0 2 zero_floats
     = (1, snd (c_get_tile os_ok zero_bytes seven_floats ''tile.bin'' 1 1 1 0 2 zero_floats))
   \<and> (0::int) < 1 \<and> (0::int) \<le> 1 \<and> (0::int) \<le> 0 \<and> ((0::int) < 1 \<or> (0::int) < 0)
   \<and> (0 * 1 + 0, tile_1d (snd (c_get_tile os_ok zero_bytes seven_floats ''tile.bin'' 1 1 1 0 2 zero_floats)) 0)
        \<in> set (stores (snd (c_get_tile os_ok zero_bytes seven_floats ''tile.bin'' 1 1 1 0 2 zero_floats)))
   \<and> (1::int) * 1 \<le> 1
   \<and> tile (snd (c_get_tile os_ok zero_bytes seven_floats ''tile.bin'' 1 1 1 0 2 zero_floats)) 1
       = tile_1d (snd (c_get_tile os_ok zero_bytes seven_floats ''tile.bin'' 1 1 1 0 2 zero_floats)) 2"
proof -
  have h: "c_get_tile os_ok zero_bytes seven_floats ''tile.bin'' 1 1 1 0 2 zero_floats
     = (1, snd (c_get_tile os_ok zero_bytes seven_floats ''tile.bin'' 1 1 1 0 2 zero_floats))"
    by (simp add: c_get_tile_success os_ok_def tile_files_def Let_def)
  note c = C1_remap_writes_over_padded_extent [OF h]
  from c [THEN conjunct1, rule_format, of 0 0]
  have a: "(0 * 1 + 0, tile_1d (snd (c_get_tile os_ok zero_bytes seven_floats ''tile.bin'' 1 1 1 0 2 zero_floats)) ((1 + 1) * 0 + 0))
        \<in> set (stores (snd (c_get_tile os_ok zero_bytes seven_floats ''tile.bin'' 1 1 1 0 2 zero_floats)))"
    by simp
  from c [THEN conjunct2, THEN conjunct2, THEN conjunct2, rule_format]
  have b: "tile (snd (c_get_tile os_ok zero_bytes seven_floats ''tile.bin'' 1 1 1 0 2 zero_floats)) ((1 + 0 - 1) * 1 + (1 + 1 - 1))
       = tile_1d (snd (c_get_tile os_ok zero_bytes seven_floats ''tile.bin'' 1 1 1 0 2 zero_floats)) ((1 + 1) * (1 + 1 - 1) + (1 + 0 - 1))"
    by simp
  from h a b show ?thesis by simp
qed

subsection \<open>Dependence on uninitialised memory\<close>

lemma status_ignores_memory:
  "fst (c_get_tile w heap0 stack0 file dx dy x_offset y_offset word_size tile0)
     = fst (c_get_tile w heap0' stack0' file dx dy x_offset y_offset word_size tile0')"
proof (cases "files w file")
  case None
  then show ?thesis by (simp add: c_get_tile_open_fails)
next
  case (Some contents)
  show ?thesis
  proof (cases "read_fails w")
    case True
    with Some show ?thesis by (simp add: c_get_tile_read_fails)
  next
    case rd: False
    show ?thesis
    proof (cases "close_fails w")
      case True
      with Some rd show ?thesis by (simp add: c_get_tile_close_fails Let_def)
    next
      case False
      with Some rd show ?thesis by (simp add: c_get_tile_success Let_def)
    qed
  qed
qed

lemma sample_index_in_range:
  fixes W H i j :: int
  assumes "0 \<le> i" "i < H" "0 \<le> j" "j < W" "W \<le> H"
  shows "0 \<le> W * j + i \<and> W * j + i < W * H"
proof -
  have a: "0 \<le> W * j"
    using assms by simp
  have "W * j \<le> W * (W - 1)"
    using assms by (intro mult_left_mono) simp_all
  then have b: "W * j \<le> W * W - W"
    by (simp add: algebra_simps)
  have "0 \<le> (W - 1) * (H - W)"
    using assms by (intro mult_nonneg_nonneg) simp_all
  then have c: "W * W + H \<le> W * H + W"
    by (simp add: algebra_simps)
  from a b c assms show ?thesis by linarith
qed

lemma remap_writes_cong:
  assumes "\<And>i j. 0 \<le> i \<Longrightarrow> i < dy + y_offset \<Longrightarrow> j \<in> set cols
             \<Longrightarrow> t ((dx + x_offset) * j + i) = t' ((dx + x_offset) * j + i)"
  shows "remap_writes dx dy x_offset y_offset t cols = remap_writes dx dy x_offset y_offset t' cols"
  unfolding remap_writes_def column_writes_def
  by (intro arg_cong [where f = concat] map_cong refl) (simp add: assms)

lemma decoded_samples_full_read:
  assumes "2 * narray \<le> int (length data)" "0 \<le> k" "k < narray"
  shows "decoded_samples 2 narray 0 (read_into data h) t k
           = decoded_samples 2 narray 0 (read_into data h') t' k"
  using assms by (simp add: decoded_samples_def read_into_def)

lemma output_ignores_memory:
  assumes "files w file = Some contents"
      and "2 * ((dx + x_offset) * (dy + y_offset)) \<le> int (length contents)"
      and "dx + x_offset \<le> dy + y_offset"
  shows "fst (c_get_tile w heap0 stack0 file dx dy x_offset y_offset 2 tile0)
           = fst (c_get_tile w heap0' stack0' file dx dy x_offset y_offset 2 tile0)
       \<and> stores (snd (c_get_tile w heap0 stack0 file dx dy x_offset y_offset 2 tile0))
           = stores (snd (c_get_tile w heap0' stack0' file dx dy x_offset y_offset 2 tile0))
       \<and> tile (snd (c_get_tile w heap0 stack0 file dx dy x_offset y_offset 2 tile0))
           = tile (snd (c_get_tile w heap0' stack0' file dx dy x_offset y_offset 2 tile0))"
proof (cases "read_fails w \<or> close_fails w")
  case True
  show ?thesis
  proof (cases "read_fails w")
    case True
    with assms(1) show ?thesis
      by (simp add: c_get_tile_read_fails)
  next
    case False
    with True assms(1) show ?thesis
      by (simp add: c_get_tile_close_fails Let_def)
  qed
next
  case False
  define data where "data = take (nat (2 * ((dx + x_offset) * (dy + y_offset)))) contents"
  have len: "2 * ((dx + x_offset) * (dy + y_offset)) \<le> int (length data)"
    using assms(2) by (simp add: data_def)
  have "remap_writes dx dy x_offset y_offset
          (decoded_samples 2 ((dx + x_offset) * (dy + y_offset)) 0 (read_into data heap0) stack0)
          [0..dx + x_offset - 1]
        = remap_writes dx dy x_offset y_offset
          (decoded_samples 2 ((dx + x_offset) * (dy + y_offset)) 0 (read_into data heap0') stack0')
          [0..dx + x_offset - 1]"
  proof (rule remap_writes_cong)
    fix i j
    assume "0 \<le> i" "i < dy + y_offset" "j \<in> set [0..dx + x_offset - 1]"
    then have "0 \<le> (dx + x_offset) * j + i
               \<and> (dx + x_offset) * j + i < (dx + x_offset) * (dy + y_offset)"
      using assms(3) by (intro sample_index_in_range) simp_all
    then show "decoded_samples 2 ((dx + x_offset) * (dy + y_offset)) 0 (read_into data heap0) stack0
                 ((dx + x_offset) * j + i)
               = decoded_samples 2 ((dx + x_offset) * (dy + y_offset)) 0 (read_into data heap0') stack0'
                 ((dx + x_offset) * j + i)"
      using len by (intro decoded_samples_full_read) simp_all
  qed
  with False assms(1) show ?thesis
    by (simp add: c_get_tile_success Let_def data_def)
qed

text \<open>
  Claim C8 says that two calls with the same arguments on the same file contents return
  the same status and, on success, the same output. That fails: with \<open>word_size = 1\<close> the
  sample array is never written, so two successful calls on the example file, which
  differ only in what the uninitialised stack memory holds, leave different values in the
  output.
\<close>

theorem C8_counterexample:
  "fst (c_get_tile os_ok zero_bytes zero_floats ''tile.bin'' 2 2 0 0 1 zero_floats) = 1
   \<and> fst (c_get_tile os_ok zero_bytes seven_floats ''tile.bin'' 2 2 0 0 1 zero_floats) = 1
   \<and> tile (snd (c_get_tile os_ok zero_bytes zero_floats ''tile.bin'' 2 2 0 0 1 zero_floats)) 0
       \<noteq> tile (snd (c_get_tile os_ok zero_bytes seven_floats ''tile.bin'' 2 2 0 0 1 zero_floats)) 0"
proof -
  have u: "[0..(1::int)] = [0, 1]"
    by (simp add: upto_rec1)
  show ?thesis
    by (simp add: c_get_tile_success os_ok_def tile_files_def Let_def decoded_samples_other_width
          remap_writes_def column_writes_def u zero_floats_def seven_floats_def)
qed

text \<open>
  Claim C8, amended: for the same arguments, file contents and outcomes of \<^verbatim>\<open>open\<close>, \<^verbatim>\<open>read\<close>
  and \<^verbatim>\<open>close\<close>, the status is the same whatever the uninitialised memory holds; when
  moreover \<open>word_size = 2\<close>, the file holds at least \<open>2 * narray\<close> bytes and
  \<open>dx + x_offset \<le> dy + y_offset\<close> (every sample the remapping reads has been decoded),
  the writes to the output and the resulting output are the same as well.
\<close>

theorem C8_deterministic_when_every_sample_is_decoded:
  "fst (c_get_tile w heap0 stack0 file dx dy x_offset y_offset word_size tile0)
     = fst (c_get_tile w heap0' stack0' file dx dy x_offset y_offset word_size tile0)
   \<and> (word_size = 2 \<and> files w file = Some contents
        \<and> 2 * ((dx + x_offset) * (dy + y_offset)) \<le> int (length contents)
        \<and> dx + x_offset \<le> dy + y_offset \<longrightarrow>
      stores (snd (c_get_tile w heap0 stack0 file dx dy x_offset y_offset word_size tile0))
        = stores (snd (c_get_tile w heap0' stack0' file dx dy x_offset y_offset word_size tile0))
      \<and> tile (snd (c_get_tile w heap0 stack0 file dx dy x_offset y_offset word_size tile0))
        = tile (snd (c_get_tile w heap0' stack0' file dx dy x_offset y_offset word_size tile0)))"
  using status_ignores_memory [of w heap0 stack0 "file" dx dy x_offset y_offset word_size tile0
                                 heap0' stack0' tile0]
        output_ignores_memory [of w "file" contents dx x_offset dy y_offset heap0 stack0 tile0
                                 heap0' stack0']
  by blast

theorem C8_witness:
  "(2::int) = 2 \<and> files os_ok ''tile.bin'' = Some tile_bytes
   \<and> 2 * ((2 + 0) * (2 + 0)) \<le> int (length tile_bytes)
   \<and> (2::int) + 0 \<le> 2 + 0
   \<and> fst (c_get_tile os_ok zero_bytes zero_floats ''tile.bin'' 2 2 0 0 2 zero_floats) = 1
   \<and> fst (c_get_tile os_ok zero_bytes seven_floats ''tile.bin'' 2 2 0 0 2 zero_floats) = 1
   \<and> stores (snd (c_get_tile os_ok zero_bytes zero_floats ''tile.bin'' 2 2 0 0 2 zero_floats))
       = stores (snd (c_get_tile os_ok zero_bytes seven_floats ''tile.bin'' 2 2 0 0 2 zero_floats))
   \<and> tile (snd (c_get_tile os_ok zero_bytes zero_floats ''tile.bin'' 2 2 0 0 2 zero_floats))
       = tile (snd (c_get_tile os_ok zero_bytes seven_floats ''tile.bin'' 2 2 0 0 2 zero_floats))"
proof -
  have h: "(2::int) = 2 \<and> files os_ok ''tile.bin'' = Some tile_bytes
           \<and> 2 * ((2 + 0) * (2 + 0)) \<le> int (length tile_bytes)
           \<and> (2::int) + 0 \<le> 2 + 0"
    by (simp add: os_ok_def tile_files_def tile_bytes_def)
  have s: "fst (c_get_tile os_ok zero_bytes zero_floats ''tile.bin'' 2 2 0 0 2 zero_floats) = 1"
    by (simp add: c_get_tile_success os_ok_def tile_files_def Let_def)
  from C8_deterministic_when_every_sample_is_decoded
         [of os_ok zero_bytes zero_floats "''tile.bin''" 2 2 0 0 2 zero_floats
             zero_bytes seven_floats tile_bytes]
  show ?thesis using h s by auto
qed

end
